theory Spec2Isabelle
  imports Main "HOL-Library.AList"
begin

section \<open>Python values and exceptions\<close>

text \<open>
  The option types of the host library (\<^verbatim>\<open>discord.ApplicationCommandOptionType\<close>); the
  module itself only ever names \<^verbatim>\<open>string\<close>.
\<close>

datatype option_type =
  string_t | integer_t | number_t | boolean_t | user_t | channel_t | role_t
  | mentionable_t | attachment_t

text \<open>
  The Python objects that travel through the module. \<open>MISSING\<close> is the sentinel
  \<^verbatim>\<open>discord.utils.MISSING\<close>, \<open>PyClass\<close> a class object used as an annotation
  (\<^verbatim>\<open>int\<close>, \<^verbatim>\<open>str\<close>, ...), \<open>PyOptionType\<close> a member of the option type enum.
\<close>

datatype pyval =
  MISSING
  | PyNone
  | PyBool bool
  | PyInt int
  | PyStr string
  | PyList "pyval list"
  | PyClass string
  | PyOptionType option_type

text \<open>Truth value testing; the sentinel \<open>MISSING\<close> is falsy, which the module relies on.\<close>

fun truthy :: "pyval \<Rightarrow> bool" where
  "truthy MISSING = False"
| "truthy PyNone = False"
| "truthy (PyBool b) = b"
| "truthy (PyInt i) = (i \<noteq> 0)"
| "truthy (PyStr s) = (s \<noteq> [])"
| "truthy (PyList xs) = (xs \<noteq> [])"
| "truthy (PyClass c) = True"
| "truthy (PyOptionType t) = True"

datatype exc =
  ValueError string
  | TypeError
  | BadArgument string
  | InteractionResponded
  | HTTPException
  | OtherError string

datatype 'a result = Returned 'a | Raised exc

section \<open>Text of integers and strings\<close>

text \<open>Characters are read as the code points below 256.\<close>

definition is_digit :: "char \<Rightarrow> bool" where
  "is_digit c = (48 \<le> (of_char c :: nat) \<and> (of_char c :: nat) \<le> 57)"

definition digit_val :: "char \<Rightarrow> nat" where
  "digit_val c = of_char c - 48"

definition digit_char :: "nat \<Rightarrow> char" where
  "digit_char n = ''0123456789'' ! n"

text \<open>\<^verbatim>\<open>str(n)\<close> for an integer: decimal digits, a minus sign for a negative number.\<close>

fun str_nat :: "nat \<Rightarrow> string" where
  "str_nat n = (if n < 10 then [digit_char n] else str_nat (n div 10) @ [digit_char (n mod 10)])"

declare str_nat.simps [simp del]

definition str_int :: "int \<Rightarrow> string" where
  "str_int i = (if i < 0 then CHR ''-'' # str_nat (nat (- i)) else str_nat (nat i))"

text \<open>
  The whitespace that \<^verbatim>\<open>int\<close> drops around the digits, on the code points below 256: tab
  to carriage return, space, NEL and the no-break space. (The separators 28 to 31 are
  whitespace for \<^verbatim>\<open>str.isspace\<close> but not for \<^verbatim>\<open>int\<close>.)
\<close>

definition is_space :: "char \<Rightarrow> bool" where
  "is_space c =
     (let n = (of_char c :: nat)
      in (9 \<le> n \<and> n \<le> 13) \<or> n = 32 \<or> n = 133 \<or> n = 160)"

definition strip :: "string \<Rightarrow> string" where
  "strip s = rev (dropWhile is_space (rev (dropWhile is_space s)))"

text \<open>
  The digits of an integer literal once the first digit is read: every further digit may
  be preceded by one underscore.
\<close>

fun digits_acc :: "nat \<Rightarrow> string \<Rightarrow> nat option" where
  "digits_acc acc [] = Some acc"
| "digits_acc acc [c] = (if is_digit c then Some (10 * acc + digit_val c) else None)"
| "digits_acc acc (c # d # ds) =
     (if is_digit c then digits_acc (10 * acc + digit_val c) (d # ds)
      else if c = CHR ''_'' \<and> is_digit d then digits_acc (10 * acc + digit_val d) ds
      else None)"

text \<open>
  \<^verbatim>\<open>int(argument)\<close> on a string, base ten: surrounding whitespace is dropped, one sign
  is allowed, then digits. \<open>None\<close> is the \<^verbatim>\<open>ValueError\<close>.
\<close>

definition unsigned_int :: "string \<Rightarrow> nat option" where
  "unsigned_int s =
     (case s of
        [] \<Rightarrow> None
      | c # cs \<Rightarrow> if is_digit c then digits_acc (digit_val c) cs else None)"

definition py_int :: "string \<Rightarrow> int option" where
  "py_int s =
     (case strip s of
        [] \<Rightarrow> None
      | c # cs \<Rightarrow>
          if c = CHR ''-'' then map_option (\<lambda>n. - int n) (unsigned_int cs)
          else if c = CHR ''+'' then map_option int (unsigned_int cs)
          else map_option int (unsigned_int (c # cs)))"

text \<open>
  \<^verbatim>\<open>repr\<close> of a string: single quotes, unless the string holds a single quote and no
  double quote; the quote in use and the backslash are escaped, control characters are
  written as escapes.
\<close>

definition hex_digit :: "nat \<Rightarrow> char" where
  "hex_digit n = ''0123456789abcdef'' ! n"

definition printable :: "char \<Rightarrow> bool" where
  "printable c =
     (let n = (of_char c :: nat)
      in (32 \<le> n \<and> n \<le> 126) \<or> (161 \<le> n \<and> n \<noteq> 173))"

definition repr_char :: "char \<Rightarrow> char \<Rightarrow> string" where
  "repr_char quote c =
     (if c = quote \<or> c = CHR 0x5C then [CHR 0x5C, c]
      else if c = CHR 0x0A then [CHR 0x5C, CHR ''n'']
      else if c = CHR 0x0D then [CHR 0x5C, CHR ''r'']
      else if c = CHR 0x09 then [CHR 0x5C, CHR ''t'']
      else if printable c then [c]
      else [CHR 0x5C, CHR ''x'', hex_digit (of_char c div 16), hex_digit (of_char c mod 16)])"

definition repr_str :: "string \<Rightarrow> string" where
  "repr_str s =
     (let quote = (if CHR 0x27 \<in> set s \<and> CHR 0x22 \<notin> set s then CHR 0x22 else CHR 0x27)
      in quote # concat (map (repr_char quote) s) @ [quote])"

text \<open>
  \<^verbatim>\<open>repr\<close> of the values that reach a message: the converter's variable holds a string
  or an integer.
\<close>

fun py_repr :: "pyval \<Rightarrow> string" where
  "py_repr (PyInt i) = str_int i"
| "py_repr (PyStr s) = repr_str s"
| "py_repr MISSING = ''...''"
| "py_repr PyNone = ''None''"
| "py_repr (PyBool b) = (if b then ''True'' else ''False'')"

section \<open>Range: the converter of the text path\<close>

text \<open>
  \<^verbatim>\<open>Range.convert\<close>. The variable \<^verbatim>\<open>argument\<close> starts as the token and is rebound to
  the integer when \<^verbatim>\<open>int\<close> succeeds, so the message shows whichever value it holds when
  the error is raised. The context argument is not used by the source. The bounds are
  integers here.
\<close>

record range =
  min_value :: int
  max_value :: int

definition bad_argument :: "range \<Rightarrow> pyval \<Rightarrow> exc" where
  "bad_argument r argument =
     BadArgument (''Expected a number between '' @ str_int (min_value r) @ '' and ''
       @ str_int (max_value r) @ '', but got '' @ py_repr argument @ '' instead'')"

definition convert :: "range \<Rightarrow> string \<Rightarrow> exc + pyval" where
  "convert r argument =
     (case py_int argument of
        None \<Rightarrow> Inl (bad_argument r (PyStr argument))
      | Some i \<Rightarrow>
          if min_value r \<le> i \<and> i \<le> max_value r then Inr (PyInt i)
          else Inl (bad_argument r (PyInt i)))"

section \<open>Option descriptors and their store\<close>

text \<open>
  One descriptor is one \<^verbatim>\<open>ApplicationCommandOption\<close> object of the host library. The class
  is not part of this module; the object is taken to hold one attribute per keyword of
  \<^verbatim>\<open>option\<close>, and \<open>MISSING\<close> in an attribute means that it is unset.
\<close>

record option_descriptor =
  opt_type :: pyval
  opt_name :: pyval
  opt_description :: pyval
  opt_required :: pyval
  opt_optional :: pyval
  opt_choices :: pyval
  opt_channel_types :: pyval
  opt_min_value :: pyval
  opt_max_value :: pyval
  opt_default :: pyval

datatype field =
  F_type | F_name | F_description | F_required | F_optional | F_choices
  | F_channel_types | F_min_value | F_max_value | F_default

fun getattr :: "option_descriptor \<Rightarrow> field \<Rightarrow> pyval" where
  "getattr d F_type = opt_type d"
| "getattr d F_name = opt_name d"
| "getattr d F_description = opt_description d"
| "getattr d F_required = opt_required d"
| "getattr d F_optional = opt_optional d"
| "getattr d F_choices = opt_choices d"
| "getattr d F_channel_types = opt_channel_types d"
| "getattr d F_min_value = opt_min_value d"
| "getattr d F_max_value = opt_max_value d"
| "getattr d F_default = opt_default d"

fun setattr :: "option_descriptor \<Rightarrow> field \<Rightarrow> pyval \<Rightarrow> option_descriptor" where
  "setattr d F_type v = d\<lparr>opt_type := v\<rparr>"
| "setattr d F_name v = d\<lparr>opt_name := v\<rparr>"
| "setattr d F_description v = d\<lparr>opt_description := v\<rparr>"
| "setattr d F_required v = d\<lparr>opt_required := v\<rparr>"
| "setattr d F_optional v = d\<lparr>opt_optional := v\<rparr>"
| "setattr d F_choices v = d\<lparr>opt_choices := v\<rparr>"
| "setattr d F_channel_types v = d\<lparr>opt_channel_types := v\<rparr>"
| "setattr d F_min_value v = d\<lparr>opt_min_value := v\<rparr>"
| "setattr d F_max_value v = d\<lparr>opt_max_value := v\<rparr>"
| "setattr d F_default v = d\<lparr>opt_default := v\<rparr>"

text \<open>
  The keyword arguments of \<^verbatim>\<open>override_option\<close>, which are also those of the host's
  \<^verbatim>\<open>option\<close>. \<open>override_defaults\<close> holds the defaults of the signature of
  \<^verbatim>\<open>override_option\<close>: \<open>MISSING\<close> for every keyword but \<^verbatim>\<open>default\<close>, whose default is
  \<^verbatim>\<open>None\<close>.
\<close>

record option_kwargs =
  kw_type :: pyval
  kw_name :: pyval
  kw_description :: pyval
  kw_required :: pyval
  kw_optional :: pyval
  kw_choices :: pyval
  kw_channel_types :: pyval
  kw_min_value :: pyval
  kw_max_value :: pyval
  kw_default :: pyval

definition override_defaults :: option_kwargs where
  "override_defaults =
     \<lparr>kw_type = MISSING, kw_name = MISSING, kw_description = MISSING, kw_required = MISSING,
      kw_optional = MISSING, kw_choices = MISSING, kw_channel_types = MISSING,
      kw_min_value = MISSING, kw_max_value = MISSING, kw_default = PyNone\<rparr>"

text \<open>The dictionary \<^verbatim>\<open>kwargs\<close> that \<^verbatim>\<open>override_option\<close> builds, in its order.\<close>

definition kwargs_items :: "option_kwargs \<Rightarrow> (field \<times> pyval) list" where
  "kwargs_items kw =
     [(F_type, kw_type kw), (F_name, kw_name kw), (F_description, kw_description kw),
      (F_required, kw_required kw), (F_optional, kw_optional kw), (F_choices, kw_choices kw),
      (F_channel_types, kw_channel_types kw), (F_min_value, kw_min_value kw),
      (F_max_value, kw_max_value kw), (F_default, kw_default kw)]"

text \<open>\<^verbatim>\<open>kwargs[key]\<close>: the value that the dictionary holds under a keyword.\<close>

fun kwargs_value :: "option_kwargs \<Rightarrow> field \<Rightarrow> pyval" where
  "kwargs_value kw F_type = kw_type kw"
| "kwargs_value kw F_name = kw_name kw"
| "kwargs_value kw F_description = kw_description kw"
| "kwargs_value kw F_required = kw_required kw"
| "kwargs_value kw F_optional = kw_optional kw"
| "kwargs_value kw F_choices = kw_choices kw"
| "kwargs_value kw F_channel_types = kw_channel_types kw"
| "kwargs_value kw F_min_value = kw_min_value kw"
| "kwargs_value kw F_max_value = kw_max_value kw"
| "kwargs_value kw F_default = kw_default kw"

text \<open>
  Modelled from the spec: the host library's constructor \<^verbatim>\<open>option\<close>, which is imported
  and not defined in this module. It builds the transient descriptor of an override from
  the keyword arguments; \<^verbatim>\<open>required\<close> and \<^verbatim>\<open>optional\<close> given together are a caller
  error. Each attribute holds the argument it was given.
\<close>

definition option :: "option_kwargs \<Rightarrow> exc + option_descriptor" where
  "option kw =
     (if kw_required kw \<noteq> MISSING \<and> kw_optional kw \<noteq> MISSING
      then Inl (ValueError ''required and optional are mutually exclusive'')
      else Inr \<lparr>opt_type = kw_type kw, opt_name = kw_name kw,
                opt_description = kw_description kw, opt_required = kw_required kw,
                opt_optional = kw_optional kw, opt_choices = kw_choices kw,
                opt_channel_types = kw_channel_types kw, opt_min_value = kw_min_value kw,
                opt_max_value = kw_max_value kw, opt_default = kw_default kw\<rparr>)"

text \<open>
  Modelled from the spec: the descriptor that the factory of the store,
  \<^verbatim>\<open>option(description=MISSING)\<close>, creates on first access of a parameter name. The keyword
  defaults of the host's \<^verbatim>\<open>option\<close> are not in this module; every field is unset, the
  default value being the placeholder \<^verbatim>\<open>None\<close>.
\<close>

definition placeholder :: option_descriptor where
  "placeholder =
     \<lparr>opt_type = MISSING, opt_name = MISSING, opt_description = MISSING,
      opt_required = MISSING, opt_optional = MISSING, opt_choices = MISSING,
      opt_channel_types = MISSING, opt_min_value = MISSING, opt_max_value = MISSING,
      opt_default = PyNone\<rparr>"

text \<open>
  The store \<^verbatim>\<open>__compat_application_command_options__\<close>: a \<^verbatim>\<open>defaultdict\<close> from parameter
  names to descriptors, kept in insertion order. \<open>getitem\<close> is its subscription, which
  inserts the factory's descriptor under a name it does not hold yet. A descriptor is
  mutated in place through the store; \<open>setitem\<close> writes the mutated descriptor back.
\<close>

type_synonym store = "(string \<times> option_descriptor) list"

definition getitem :: "store \<Rightarrow> string \<Rightarrow> option_descriptor \<times> store" where
  "getitem options key =
     (case map_of options key of
        Some d \<Rightarrow> (d, options)
      | None \<Rightarrow> (placeholder, options @ [(key, placeholder)]))"

definition setitem :: "store \<Rightarrow> string \<Rightarrow> option_descriptor \<Rightarrow> store" where
  "setitem options key d = AList.update key d options"

section \<open>The override engine\<close>

text \<open>
  The loop of \<^verbatim>\<open>override_option\<close> over \<^verbatim>\<open>kwargs.items()\<close>: a keyword whose value is
  \<open>MISSING\<close> is skipped, any other is copied from the transient descriptor \<open>new\<close> onto
  \<open>current\<close>.
\<close>

fun copy_fields ::
  "option_descriptor \<Rightarrow> (field \<times> pyval) list \<Rightarrow> option_descriptor \<Rightarrow> option_descriptor" where
  "copy_fields new [] current = current"
| "copy_fields new ((key, v) # rest) current =
     (if v = MISSING then copy_fields new rest current
      else copy_fields new rest (setattr current key (getattr new key)))"

text \<open>
  The body of the decorator that \<^verbatim>\<open>override_option\<close> returns, on the store of the callback:
  the store is created when the callback has none, the descriptor of \<open>param_name\<close> is
  looked up (and created), the transient descriptor is built and its fields are copied.
  The first component is the exception, if \<^verbatim>\<open>option\<close> raised one; the store then keeps
  the entry that the lookup created.
\<close>

definition override_store ::
  "string \<Rightarrow> option_kwargs \<Rightarrow> store option \<Rightarrow> exc option \<times> store option" where
  "override_store param_name kw attr =
     (let options = (case attr of None \<Rightarrow> [] | Some s \<Rightarrow> s);
          (current, options1) = getitem options param_name
      in case option kw of
           Inl e \<Rightarrow> (Some e, Some options1)
         | Inr new \<Rightarrow>
             (None, Some (setitem options1 param_name (copy_fields new (kwargs_items kw) current))))"

section \<open>Commands, callbacks and the registry\<close>

datatype application_command_type = chat_input | user_command | message_command

text \<open>
  The keyword arguments of \<^verbatim>\<open>inject\<close>; \<open>None\<close> is the sentinel \<open>MISSING\<close>. A parent and a
  command tree are named by their identity.
\<close>

record inject_kwargs =
  ik_name :: "string option"
  ik_type :: application_command_type
  ik_description :: "string option"
  ik_parent :: "string option"
  ik_default_permission :: bool
  ik_option_kwargs :: "(string \<times> pyval) list option"
  ik_guild_id :: "int option"
  ik_tree :: "string option"
  ik_excluded_options :: "string list"

definition inject_defaults :: inject_kwargs where
  "inject_defaults =
     \<lparr>ik_name = None, ik_type = chat_input, ik_description = None, ik_parent = None,
      ik_default_permission = True, ik_option_kwargs = None, ik_guild_id = None,
      ik_tree = None, ik_excluded_options = []\<rparr>"

text \<open>
  The keywords that \<^verbatim>\<open>Injector.inject\<close> freezes in the \<^verbatim>\<open>functools.partial\<close> it attaches to
  a plain callback as \<^verbatim>\<open>__compat_inject__\<close>: eight of them.
\<close>

record partial_kwargs =
  pk_name :: "string option"
  pk_type :: application_command_type
  pk_description :: "string option"
  pk_parent :: "string option"
  pk_default_permission :: bool
  pk_option_kwargs :: "(string \<times> pyval) list option"
  pk_guild_id :: "int option"
  pk_tree :: "string option"

text \<open>
  Calling the partial with no further argument: \<^verbatim>\<open>self.inject\<close> receives the frozen
  keywords, and every other parameter takes the default of the signature.
\<close>

definition call_partial :: "partial_kwargs \<Rightarrow> inject_kwargs" where
  "call_partial p =
     \<lparr>ik_name = pk_name p, ik_type = pk_type p, ik_description = pk_description p,
      ik_parent = pk_parent p, ik_default_permission = pk_default_permission p,
      ik_option_kwargs = pk_option_kwargs p, ik_guild_id = pk_guild_id p,
      ik_tree = pk_tree p, ik_excluded_options = ik_excluded_options inject_defaults\<rparr>"

text \<open>
  The generated application command: the class that \<^verbatim>\<open>ApplicationCommandMeta\<close> is called
  to build, as the arguments it is built from. \<open>ac_callback_params\<close> are the option names
  that the entry-point callback collects into the keyword arguments of the handler.
\<close>

record application_command =
  ac_identity :: string
  ac_annotations :: "(string \<times> pyval) list"
  ac_callback_params :: "string list"
  ac_options :: store
  ac_type :: application_command_type
  ac_name :: string
  ac_description :: string
  ac_parent :: "string option"
  ac_default_permission :: bool
  ac_option_kwargs :: "(string \<times> pyval) list option"
  ac_guild_id :: "int option"
  ac_tree :: string

text \<open>A callback function with the attributes this module attaches to it.\<close>

record function_obj =
  fn_name :: string
  fn_annotations :: "(string \<times> pyval) list"
  compat_options :: "store option"
  compat_inject :: "partial_kwargs option"
  compat_injection_kwargs :: "inject_kwargs option"
  compat_application_command :: "application_command option"

text \<open>A parameter of the signature; \<open>None\<close> is \<^verbatim>\<open>Parameter.empty\<close>, no default.\<close>

record parameter =
  param_default :: "pyval option"

text \<open>
  A legacy command. \<open>cmd_parent\<close> is \<open>None\<close> without a parent, \<open>Some None\<close> with a parent
  that has no \<^verbatim>\<open>__compat_application_command__\<close>, and \<open>Some (Some i)\<close> with a parent whose
  generated command has the identity \<open>i\<close>. \<open>compat_injector\<close> says whether
  \<^verbatim>\<open>__compat_injector__\<close> is set.
\<close>

record command =
  cmd_name :: string
  short_doc :: string
  cmd_parent :: "string option option"
  clean_params :: "(string \<times> parameter) list"
  callback :: function_obj
  compat_injector :: bool

datatype decorated = Function function_obj | Command command

text \<open>
  The bot with its injector: the injector's default tree, the registry of application
  commands of the host (each with the guild it is scoped to) and the legacy commands.
\<close>

record bot =
  injector_tree :: string
  application_commands :: "(application_command \<times> int option) list"
  commands :: "command list"

text \<open>
  The host's \<^verbatim>\<open>_resolve_option_annotation\<close> is a parameter: it mutates the descriptor and may
  raise; the first component is the exception raised, if any.
\<close>

type_synonym resolver = "option_descriptor \<Rightarrow> pyval \<Rightarrow> exc option \<times> option_descriptor"

section \<open>The decorators on a callback or a command\<close>

definition override_option :: "string \<Rightarrow> option_kwargs \<Rightarrow> decorated \<Rightarrow> exc option \<times> decorated" where
  "override_option param_name kw original =
     (case original of
        Function f \<Rightarrow>
          (let (e, s) = override_store param_name kw (compat_options f)
           in (e, Function (f\<lparr>compat_options := s\<rparr>)))
      | Command c \<Rightarrow>
          (let (e, s) = override_store param_name kw (compat_options (callback c))
           in (e, Command (c\<lparr>callback := (callback c)\<lparr>compat_options := s\<rparr>\<rparr>))))"

definition describe :: "string \<Rightarrow> string \<Rightarrow> decorated \<Rightarrow> exc option \<times> decorated" where
  "describe param_name description =
     override_option param_name (override_defaults\<lparr>kw_description := PyStr description\<rparr>)"

section \<open>The injector\<close>

text \<open>
  The loop of \<^verbatim>\<open>Injector.inject\<close> over \<^verbatim>\<open>command.clean_params.items()\<close>. A parameter without
  a default is marked required and the loop continues with the next parameter; a
  parameter with a default is marked optional, carries the default, and its annotation,
  when there is a truthy one, goes through the resolver. A \<^verbatim>\<open>TypeError\<close> of the resolver
  sets the type to string; any other exception ends the loop and propagates.
\<close>

fun infer_options ::
  "resolver \<Rightarrow> string list \<Rightarrow> (string \<times> pyval) list \<Rightarrow> (string \<times> parameter) list \<Rightarrow> store
     \<Rightarrow> exc option \<times> store" where
  "infer_options R excluded_options annotations [] options = (None, options)"
| "infer_options R excluded_options annotations ((key, p) # rest) options =
     (if key \<in> set excluded_options then infer_options R excluded_options annotations rest options
      else
        let (current, options1) = getitem options key
        in case param_default p of
             None \<Rightarrow>
               infer_options R excluded_options annotations rest
                 (setitem options1 key (current\<lparr>opt_required := PyBool True\<rparr>))
           | Some default_v \<Rightarrow>
               (let current1 = current\<lparr>opt_required := PyBool False, opt_default := default_v\<rparr>
                in case map_of annotations key of
                     None \<Rightarrow>
                       infer_options R excluded_options annotations rest
                         (setitem options1 key current1)
                   | Some annotation \<Rightarrow>
                       if \<not> truthy annotation
                       then infer_options R excluded_options annotations rest
                              (setitem options1 key current1)
                       else
                         (case R current1 annotation of
                            (None, current2) \<Rightarrow>
                              infer_options R excluded_options annotations rest
                                (setitem options1 key current2)
                          | (Some TypeError, current2) \<Rightarrow>
                              infer_options R excluded_options annotations rest
                                (setitem options1 key
                                   (current2\<lparr>opt_type := PyOptionType string_t\<rparr>))
                          | (Some e, current2) \<Rightarrow> (Some e, setitem options1 key current2))))"

definition resolve_description :: "inject_kwargs \<Rightarrow> command \<Rightarrow> string option" where
  "resolve_description kw c =
     (if ik_description kw = None \<and> short_doc c \<noteq> [] then Some (take 100 (short_doc c))
      else ik_description kw)"

definition resolve_parent :: "inject_kwargs \<Rightarrow> command \<Rightarrow> string option" where
  "resolve_parent kw c =
     (case ik_parent kw of
        Some p \<Rightarrow> Some p
      | None \<Rightarrow> (case cmd_parent c of Some (Some i) \<Rightarrow> Some i | _ \<Rightarrow> None))"

definition no_description :: "function_obj \<Rightarrow> exc" where
  "no_description func =
     ValueError (''tried to convert '' @ repr_str (fn_name func)
       @ '' into an application command, but it has no description'')"

text \<open>
  The decorator of \<^verbatim>\<open>Injector.inject\<close> on a command. \<open>ident\<close> is the string that
  \<^verbatim>\<open>os.urandom(16).hex()\<close> returns. The host's class construction is taken to succeed, and
  \<^verbatim>\<open>add_application_command\<close> to append to the registry. The result is the exception raised
  (if any), the command with its mutated callback, and the bot.
\<close>

definition inject_command ::
  "resolver \<Rightarrow> string \<Rightarrow> inject_kwargs \<Rightarrow> command \<Rightarrow> bot \<Rightarrow> exc option \<times> command \<times> bot" where
  "inject_command R ident kw c b =
     (let func = callback c;
          name = (case ik_name kw of None \<Rightarrow> cmd_name c | Some n \<Rightarrow> n);
          parent = resolve_parent kw c
      in case resolve_description kw c of
           None \<Rightarrow> (Some (no_description func), c, b)
         | Some description \<Rightarrow>
             if description = [] then (Some (no_description func), c, b)
             else
               let options = (case compat_options func of None \<Rightarrow> [] | Some s \<Rightarrow> s);
                   (err, options1) =
                      infer_options R (ik_excluded_options kw) (fn_annotations func)
                        (clean_params c) options
               in case err of
                    Some e \<Rightarrow> (Some e, c\<lparr>callback := func\<lparr>compat_options := Some options1\<rparr>\<rparr>, b)
                  | None \<Rightarrow>
                      let app =
                            \<lparr>ac_identity = ident,
                             ac_annotations = fn_annotations func,
                             ac_callback_params =
                               filter (\<lambda>k. k \<notin> set (ik_excluded_options kw))
                                 (map fst (clean_params c)),
                             ac_options = options1,
                             ac_type = ik_type kw,
                             ac_name = name,
                             ac_description = description,
                             ac_parent = parent,
                             ac_default_permission = ik_default_permission kw,
                             ac_option_kwargs = ik_option_kwargs kw,
                             ac_guild_id = ik_guild_id kw,
                             ac_tree = (case ik_tree kw of None \<Rightarrow> injector_tree b | Some t \<Rightarrow> t)\<rparr>
                      in (None,
                          c\<lparr>callback := func\<lparr>compat_options := Some options1,
                                              compat_application_command := Some app\<rparr>\<rparr>,
                          b\<lparr>application_commands :=
                              application_commands b @ [(app, ik_guild_id kw)]\<rparr>))"

text \<open>
  \<^verbatim>\<open>Injector.inject(...)\<close> applied to a callback or a command. On a plain callback the
  registration is deferred: the partial is attached and the callback returned.
\<close>

definition injector_inject ::
  "resolver \<Rightarrow> string \<Rightarrow> inject_kwargs \<Rightarrow> decorated \<Rightarrow> bot \<Rightarrow> exc option \<times> decorated \<times> bot" where
  "injector_inject R ident kw target b =
     (case target of
        Function func \<Rightarrow>
          (None,
           Function (func\<lparr>compat_inject :=
             Some \<lparr>pk_name = ik_name kw, pk_type = ik_type kw,
                   pk_description = ik_description kw, pk_parent = ik_parent kw,
                   pk_default_permission = ik_default_permission kw,
                   pk_option_kwargs = ik_option_kwargs kw, pk_guild_id = ik_guild_id kw,
                   pk_tree = ik_tree kw\<rparr>\<rparr>),
           b)
      | Command c \<Rightarrow>
          (let (e, c1, b1) = inject_command R ident kw c b in (e, Command c1, b1)))"

text \<open>
  The module-level \<^verbatim>\<open>inject(...)\<close>: on a command that already carries an injector it
  registers at once, on a plain callback it stores all nine keywords as
  \<^verbatim>\<open>__compat_injection_kwargs__\<close>.
\<close>

definition inject ::
  "resolver \<Rightarrow> string \<Rightarrow> inject_kwargs \<Rightarrow> decorated \<Rightarrow> bot \<Rightarrow> exc option \<times> decorated \<times> bot" where
  "inject R ident kw target b =
     (case target of
        Command c \<Rightarrow>
          if compat_injector c
          then (let (e, c1, b1) = inject_command R ident kw c b in (e, Command c1, b1))
          else (None, Command c, b)
      | Function func \<Rightarrow> (None, Function (func\<lparr>compat_injection_kwargs := Some kw\<rparr>), b))"

text \<open>
  \<^verbatim>\<open>CompatBotMixin.add_command\<close>: the binding step. A pending partial is called and applied
  to the command; otherwise stored keywords, if any, go to the bot's injector; then the
  command is marked and handed to the base class.
\<close>

definition add_command ::
  "resolver \<Rightarrow> string \<Rightarrow> command \<Rightarrow> bot \<Rightarrow> exc option \<times> command \<times> bot" where
  "add_command R ident c b =
     (let (e, c1, b1) =
            (case compat_inject (callback c) of
               Some p \<Rightarrow> inject_command R ident (call_partial p) c b
             | None \<Rightarrow>
                 (case compat_injection_kwargs (callback c) of
                    Some kw \<Rightarrow> inject_command R ident kw c b
                  | None \<Rightarrow> (None, c, b)))
      in case e of
           Some x \<Rightarrow> (Some x, c1, b1)
         | None \<Rightarrow>
             (let c2 = c1\<lparr>compat_injector := True\<rparr>
              in (None, c2, b1\<lparr>commands := commands b1 @ [c2]\<rparr>)))"

text \<open>
  Modelled from the spec: the host's \<^verbatim>\<open>_resolve_option_annotation\<close>, imported and not
  defined in this module, on the plain classes: it yields the option type of the
  annotation, fills the type only where it is still unset, and raises \<^verbatim>\<open>TypeError\<close> on an
  annotation it does not support.
\<close>

definition fill_type :: "option_type \<Rightarrow> option_descriptor \<Rightarrow> exc option \<times> option_descriptor" where
  "fill_type t current =
     (None, if opt_type current = MISSING then current\<lparr>opt_type := PyOptionType t\<rparr> else current)"

definition resolve_option_annotation :: resolver where
  "resolve_option_annotation current annotation =
     (if annotation = PyClass ''int'' then fill_type integer_t current
      else if annotation = PyClass ''str'' then fill_type string_t current
      else if annotation = PyClass ''float'' then fill_type number_t current
      else if annotation = PyClass ''bool'' then fill_type boolean_t current
      else (Some TypeError, current))"

section \<open>The host's interaction object\<close>

type_synonym kwargs = "(string \<times> pyval) list"

text \<open>
  The requests that reach the platform, by the host operation that makes them. The last
  three are the legacy paths: \<^verbatim>\<open>commands.Context.send\<close>, \<^verbatim>\<open>commands.Context.reply\<close>, and the
  regular edit of a message.
\<close>

datatype host_call =
  ResponseSendMessage pyval kwargs
  | FollowupSend pyval kwargs
  | ResponseEditMessage kwargs
  | EditOriginalMessage kwargs
  | ResponseDefer bool bool
  | ContextSend pyval kwargs
  | ContextReply pyval kwargs
  | MessageEdit kwargs

text \<open>
  The state of one invocation on the host's side: the response phase of the interaction
  (\<open>responded\<close> is what \<^verbatim>\<open>response.is_done()\<close> returns), the requests made so far, and
  \<open>platform\<close>, which says of the request number \<open>n\<close> whether the platform accepts it.
\<close>

record world =
  responded :: bool
  calls :: "host_call list"
  platform :: "nat \<Rightarrow> bool"

type_synonym 'a coroutine = "world \<Rightarrow> 'a result \<times> world"

text \<open>
  Modelled from the spec: the operations of the host's interaction object, which are not
  defined in this module. A request is recorded and then accepted or refused by the
  platform; a refusal is an \<^verbatim>\<open>HTTPException\<close>.
\<close>

definition request :: "host_call \<Rightarrow> unit coroutine" where
  "request c w =
     (let w1 = w\<lparr>calls := calls w @ [c]\<rparr>
      in if platform w (length (calls w)) then (Returned (), w1) else (Raised HTTPException, w1))"

text \<open>
  Modelled from the spec: an initial response (send, defer, edit through the response
  object). It is a response-state conflict, \<^verbatim>\<open>InteractionResponded\<close>, when the interaction
  has been responded to; otherwise the request is made and, once it has completed, the
  phase becomes RESPONDED.
\<close>

definition initial_response :: "host_call \<Rightarrow> unit coroutine" where
  "initial_response c w =
     (if responded w then (Raised InteractionResponded, w)
      else case request c w of
             (Returned u, w1) \<Rightarrow> (Returned u, w1\<lparr>responded := True\<rparr>)
           | (Raised e, w1) \<Rightarrow> (Raised e, w1))"

definition response_send_message :: "pyval \<Rightarrow> kwargs \<Rightarrow> unit coroutine" where
  "response_send_message content kw = initial_response (ResponseSendMessage content kw)"

definition response_edit_message :: "kwargs \<Rightarrow> unit coroutine" where
  "response_edit_message kw = initial_response (ResponseEditMessage kw)"

definition response_defer :: "bool \<Rightarrow> bool \<Rightarrow> unit coroutine" where
  "response_defer loading ephemeral = initial_response (ResponseDefer loading ephemeral)"

definition followup_send :: "pyval \<Rightarrow> kwargs \<Rightarrow> unit coroutine" where
  "followup_send content kw = request (FollowupSend content kw)"

definition edit_original_message :: "kwargs \<Rightarrow> unit coroutine" where
  "edit_original_message kw = request (EditOriginalMessage kw)"

text \<open>
  Modelled from the spec: the legacy send and reply of the base context, which return
  the message that was sent.
\<close>

datatype message = SentMessage pyval kwargs

definition context_send :: "pyval \<Rightarrow> kwargs \<Rightarrow> message coroutine" where
  "context_send content kw w =
     (case request (ContextSend content kw) w of
        (Returned u, w1) \<Rightarrow> (Returned (SentMessage content kw), w1)
      | (Raised e, w1) \<Rightarrow> (Raised e, w1))"

definition context_reply :: "pyval \<Rightarrow> kwargs \<Rightarrow> message coroutine" where
  "context_reply content kw w =
     (case request (ContextReply content kw) w of
        (Returned u, w1) \<Rightarrow> (Returned (SentMessage content kw), w1)
      | (Raised e, w1) \<Rightarrow> (Raised e, w1))"

section \<open>The context adapter\<close>

record interaction =
  interaction_id :: nat
  user :: string

text \<open>\<^verbatim>\<open>MakeshiftMessage\<close> and its constructor \<^verbatim>\<open>from_interaction\<close>.\<close>

record makeshift_message =
  msg_id :: nat
  author :: string
  the_interaction :: interaction

definition from_interaction :: "interaction \<Rightarrow> makeshift_message" where
  "from_interaction i = \<lparr>msg_id = interaction_id i, author = user i, the_interaction = i\<rparr>"

datatype any_message = Message | Makeshift makeshift_message

text \<open>\<^verbatim>\<open>InteractionAwareContext\<close>; \<open>new_context\<close> is its \<^verbatim>\<open>__init__\<close>.\<close>

record interaction_aware_context =
  ctx_message :: any_message
  ctx_interaction :: "interaction option"

definition new_context :: "any_message \<Rightarrow> interaction_aware_context" where
  "new_context m =
     \<lparr>ctx_message = m,
      ctx_interaction = (case m of Makeshift mm \<Rightarrow> Some (the_interaction mm) | Message \<Rightarrow> None)\<rparr>"

definition is_interaction :: "interaction_aware_context \<Rightarrow> bool" where
  "is_interaction ctx = (ctx_interaction ctx \<noteq> None)"

text \<open>\<^verbatim>\<open>kwargs.pop(key, None)\<close> for each key of a tuple.\<close>

fun pop_keys :: "string list \<Rightarrow> kwargs \<Rightarrow> kwargs" where
  "pop_keys [] kw = kw"
| "pop_keys (key # keys) kw = pop_keys keys (AList.delete key kw)"

text \<open>\<^verbatim>\<open>MakeshiftMessage.edit\<close>.\<close>

definition edit :: "kwargs \<Rightarrow> unit coroutine" where
  "edit kw w = (if responded w then edit_original_message kw w else response_edit_message kw w)"

text \<open>
  \<^verbatim>\<open>InteractionAwareContext.send\<close>. With an interaction it returns \<^verbatim>\<open>None\<close>, otherwise the
  message of the legacy send.
\<close>

definition send :: "interaction_aware_context \<Rightarrow> pyval \<Rightarrow> kwargs \<Rightarrow> message option coroutine" where
  "send ctx content kw w =
     (if is_interaction ctx
      then
        let kw1 = pop_keys [''reference'', ''mention_after'', ''delete_after'', ''nonce''] kw
        in case (if responded w then followup_send content kw1 w
                 else response_send_message content kw1 w) of
             (Returned u, w1) \<Rightarrow> (Returned None, w1)
           | (Raised e, w1) \<Rightarrow> (Raised e, w1)
      else
        case context_send content (pop_keys [''ephemeral''] kw) w of
          (Returned m, w1) \<Rightarrow> (Returned (Some m), w1)
        | (Raised e, w1) \<Rightarrow> (Raised e, w1))"

text \<open>
  \<^verbatim>\<open>InteractionAwareContext.defer\<close>, here \<open>defer_ctx\<close>. The source calls the coroutine function
  \<^verbatim>\<open>response.defer\<close> and does not await the coroutine it gets: the coroutine object is
  built and dropped, so its body never runs.
\<close>

definition defer_ctx :: "interaction_aware_context \<Rightarrow> bool \<Rightarrow> bool \<Rightarrow> unit coroutine" where
  "defer_ctx ctx loading ephemeral w =
     (if is_interaction ctx
      then (let dropped = response_defer loading ephemeral in (Returned (), w))
      else (Returned (), w))"

text \<open>
  \<^verbatim>\<open>InteractionAwareContext.reply\<close>: \<^verbatim>\<open>func\<close> is \<^verbatim>\<open>self.send\<close> with an interaction and
  \<^verbatim>\<open>self.reply\<close>, this very method, without one. \<open>None\<close> is a call that never returns.
\<close>

partial_function (option) reply ::
  "interaction_aware_context \<Rightarrow> pyval \<Rightarrow> kwargs \<Rightarrow> world \<Rightarrow> (message option result \<times> world) option" where
  "reply ctx content kw w =
     (if is_interaction ctx then Some (send ctx content kw w) else reply ctx content kw w)"

text \<open>
  The sends that a handler makes one after another on the same context, whatever the
  outcome of each.
\<close>

fun send_each :: "interaction_aware_context \<Rightarrow> (pyval \<times> kwargs) list \<Rightarrow> world \<Rightarrow> world" where
  "send_each ctx [] w = w"
| "send_each ctx ((content, kw) # rest) w = send_each ctx rest (snd (send ctx content kw w))"

section \<open>Example inputs\<close>

text \<open>The range of the documentation's example: from 1 to 10.\<close>

definition range_1_10 :: range where
  "range_1_10 = \<lparr>min_value = 1, max_value = 10\<rparr>"

text \<open>
  The callback behind a decorated object, as the decorators take it
  (\<^verbatim>\<open>func = func.callback\<close> for a command), and the store it carries.
\<close>

fun callback_of :: "decorated \<Rightarrow> function_obj" where
  "callback_of (Function f) = f"
| "callback_of (Command c) = callback c"

definition options_of :: "decorated \<Rightarrow> store" where
  "options_of d = (case compat_options (callback_of d) of None \<Rightarrow> [] | Some s \<Rightarrow> s)"

text \<open>A function as Python defines it, before any decorator has touched it.\<close>

definition plain_function :: "string \<Rightarrow> (string \<times> pyval) list \<Rightarrow> function_obj" where
  "plain_function n anns =
     \<lparr>fn_name = n, fn_annotations = anns, compat_options = None, compat_inject = None,
      compat_injection_kwargs = None, compat_application_command = None\<rparr>"

text \<open>
  The example of the docstring of \<^verbatim>\<open>inject\<close>:
  \<^verbatim>\<open>async def add(ctx, a: int, b: int)\<close>, documented "Adds two numbers together";
  \<open>add_command_of\<close> is the command that \<^verbatim>\<open>bot.command()\<close> makes of the callback, and
  \<open>described_add\<close> the callback after the two \<^verbatim>\<open>describe\<close> decorators of the example.
\<close>

definition add_function :: function_obj where
  "add_function = plain_function ''add'' [(''a'', PyClass ''int''), (''b'', PyClass ''int'')]"

definition add_command_of :: "function_obj \<Rightarrow> command" where
  "add_command_of f =
     \<lparr>cmd_name = ''add'', short_doc = ''Adds two numbers together'', cmd_parent = None,
      clean_params = [(''a'', \<lparr>param_default = None\<rparr>), (''b'', \<lparr>param_default = None\<rparr>)],
      callback = f, compat_injector = False\<rparr>"


definition undocumented_command :: command where
  "undocumented_command = (add_command_of add_function)\<lparr>short_doc := []\<rparr>"

definition long_doc_command :: command where
  "long_doc_command = (add_command_of add_function)\<lparr>short_doc := replicate 120 (CHR ''x'')\<rparr>"

definition new_bot :: bot where
  "new_bot =
     \<lparr>injector_tree = ''discord-ext-compat-injector'', application_commands = [],
      commands = []\<rparr>"

text \<open>
  A second callback, \<^verbatim>\<open>async def greet(ctx, a, b: int = 3)\<close>, documented "Greets";
  \<open>overridden_greet\<close> is the callback after two explicit overrides, one making \<^verbatim>\<open>a\<close>
  optional and one giving \<^verbatim>\<open>b\<close> the default 7, and \<open>exclude_b\<close> the keywords of an injection
  that excludes \<^verbatim>\<open>b\<close>.
\<close>

definition greet_function :: function_obj where
  "greet_function = plain_function ''greet'' [(''b'', PyClass ''int'')]"

definition greet_command_of :: "function_obj \<Rightarrow> command" where
  "greet_command_of f =
     \<lparr>cmd_name = ''greet'', short_doc = ''Greets'', cmd_parent = None,
      clean_params =
        [(''a'', \<lparr>param_default = None\<rparr>), (''b'', \<lparr>param_default = Some (PyInt 3)\<rparr>)],
      callback = f, compat_injector = False\<rparr>"

definition overridden_greet :: function_obj where
  "overridden_greet =
     callback_of (snd (override_option ''a'' (override_defaults\<lparr>kw_required := PyBool False\<rparr>)
       (snd (override_option ''b'' (override_defaults\<lparr>kw_default := PyInt 7\<rparr>)
          (Function greet_function)))))"

definition exclude_b :: inject_kwargs where
  "exclude_b = inject_defaults\<lparr>ik_excluded_options := [''b'']\<rparr>"

text \<open>
  A context built from an interaction and one built from a real message; a world in which
  nothing has been sent and one in which the interaction has been responded to. The
  platform accepts every request in both.
\<close>

definition interaction_context :: interaction_aware_context where
  "interaction_context =
     new_context (Makeshift (from_interaction \<lparr>interaction_id = 1, user = ''alice''\<rparr>))"

definition legacy_context :: interaction_aware_context where
  "legacy_context = new_context Message"

definition fresh_world :: world where
  "fresh_world = \<lparr>responded = False, calls = [], platform = (\<lambda>n. True)\<rparr>"

definition responded_world :: world where
  "responded_world =
     \<lparr>responded = True, calls = [ResponseSendMessage (PyStr ''hi'') []],
      platform = (\<lambda>n. True)\<rparr>"

section \<open>Properties of the Range converter\<close>

lemmas py_int_eval =
  py_int_def strip_def is_space_def unsigned_int_def is_digit_def digit_val_def

lemmas str_eval =
  str_int_def str_nat.simps digit_char_def repr_str_def repr_char_def printable_def Let_def

lemma str_int_1: "str_int 1 = ''1''"
  by (simp add: str_eval)

lemma str_int_10: "str_int 10 = ''10''"
  by (simp add: str_eval)

text \<open>
  For any range and any token, the converter either returns an integer within the bounds
  or raises the bad-argument error whose message names both bounds.
\<close>

lemma convert_cases:
  "case convert r argument of
     Inr v \<Rightarrow> \<exists>i. v = PyInt i \<and> min_value r \<le> i \<and> i \<le> max_value r
   | Inl e \<Rightarrow> \<exists>shown. e = BadArgument (''Expected a number between '' @ str_int (min_value r)
        @ '' and '' @ str_int (max_value r) @ '', but got '' @ shown @ '' instead'')"
  by (auto simp: convert_def bad_argument_def split: option.splits)

text \<open>
  Claim C10. With the range from 1 to 10, the token \<^verbatim>\<open>5\<close> converts to the integer 5; the
  tokens \<^verbatim>\<open>15\<close> and \<^verbatim>\<open>abc\<close> each raise a bad-argument error whose message names the range
  1 to 10; and whatever the token, the converter returns an integer between 1 and 10 or
  raises that error: it never returns anything that is not an integer.
\<close>

theorem range_convert_1_10:
  "convert range_1_10 ''5'' = Inr (PyInt 5)
   \<and> convert range_1_10 ''15''
       = Inl (BadArgument ''Expected a number between 1 and 10, but got 15 instead'')
   \<and> convert range_1_10 ''abc''
       = Inl (BadArgument ''Expected a number between 1 and 10, but got 'abc' instead'')
   \<and> (\<forall>argument.
         case convert range_1_10 argument of
           Inr v \<Rightarrow> \<exists>i. v = PyInt i \<and> 1 \<le> i \<and> i \<le> 10
         | Inl e \<Rightarrow> \<exists>shown. e = BadArgument
             (''Expected a number between 1 and 10, but got '' @ shown @ '' instead''))"
proof -
  have five: "convert range_1_10 ''5'' = Inr (PyInt 5)"
    by (simp add: convert_def range_1_10_def py_int_eval)
  have fifteen: "convert range_1_10 ''15''
       = Inl (BadArgument ''Expected a number between 1 and 10, but got 15 instead'')"
    by (simp add: convert_def range_1_10_def py_int_eval bad_argument_def str_eval)
  have abc: "convert range_1_10 ''abc''
       = Inl (BadArgument ''Expected a number between 1 and 10, but got 'abc' instead'')"
    by (simp add: convert_def range_1_10_def py_int_eval bad_argument_def str_eval)
  have every: "case convert range_1_10 argument of
           Inr v \<Rightarrow> \<exists>i. v = PyInt i \<and> 1 \<le> i \<and> i \<le> 10
         | Inl e \<Rightarrow> \<exists>shown. e = BadArgument
             (''Expected a number between 1 and 10, but got '' @ shown @ '' instead'')"
    for argument
    using convert_cases [of range_1_10 argument]
    by (auto simp: range_1_10_def str_int_1 str_int_10 split: sum.splits)
  from five fifteen abc every show ?thesis by blast
qed

section \<open>Properties of the override engine\<close>

lemmas store_eval =
  override_option_def describe_def override_store_def getitem_def setitem_def option_def
  kwargs_items_def override_defaults_def placeholder_def plain_function_def Let_def


lemma getattr_setattr_other: "f \<noteq> k \<Longrightarrow> getattr (setattr d k v) f = getattr d f"
  by (cases k; cases f) simp_all

lemma copy_fields_skips:
  "(\<And>v. (f, v) \<in> set items \<Longrightarrow> v = MISSING) \<Longrightarrow>
   getattr (copy_fields new items current) f = getattr current f"
proof (induction items arbitrary: current)
  case Nil
  then show ?case by simp
next
  case (Cons kv items)
  obtain k v where kv: "kv = (k, v)" by (cases kv)
  have rest: "\<And>v. (f, v) \<in> set items \<Longrightarrow> v = MISSING" using Cons.prems by simp
  show ?case
  proof (cases "v = MISSING")
    case True
    with kv Cons.IH [OF rest] show ?thesis by simp
  next
    case False
    with Cons.prems [of v] kv have "f \<noteq> k" by auto
    with kv False Cons.IH [OF rest, of "setattr current k (getattr new k)"]
    show ?thesis by (simp add: getattr_setattr_other)
  qed
qed

lemma copy_fields_snoc:
  "copy_fields new (items @ [(k, v)]) current =
     (if v = MISSING then copy_fields new items current
      else setattr (copy_fields new items current) k (getattr new k))"
  by (induction items arbitrary: current) auto

lemma kwargs_items_value: "(f, v) \<in> set (kwargs_items kw) \<Longrightarrow> v = kwargs_value kw f"
  by (auto simp: kwargs_items_def)

text \<open>
  What the loop does leave alone: a field whose keyword holds \<open>MISSING\<close> keeps its value.
\<close>

lemma override_keeps_missing_fields:
  "kwargs_value kw f = MISSING \<Longrightarrow>
   getattr (copy_fields new (kwargs_items kw) current) f = getattr current f"
  using kwargs_items_value [of f _ kw] by (intro copy_fields_skips) auto

text \<open>
  The keyword \<^verbatim>\<open>default\<close> holds \<open>MISSING\<close> only when the caller passes the sentinel itself;
  in every other call the default of the transient descriptor is copied.
\<close>

lemma override_copies_default:
  "kw_default kw \<noteq> MISSING \<Longrightarrow>
   opt_default (copy_fields new (kwargs_items kw) current) = opt_default new"
proof -
  assume d: "kw_default kw \<noteq> MISSING"
  have "kwargs_items kw = butlast (kwargs_items kw) @ [(F_default, kw_default kw)]"
    by (simp add: kwargs_items_def)
  then have "copy_fields new (kwargs_items kw) current
      = setattr (copy_fields new (butlast (kwargs_items kw)) current) F_default
          (getattr new F_default)"
    using d copy_fields_snoc [of new "butlast (kwargs_items kw)" F_default "kw_default kw" current]
    by simp
  then show ?thesis by simp
qed

text \<open>
  So \<^verbatim>\<open>describe\<close>, on any store and for any parameter, leaves the descriptor with the given
  description and with the default \<^verbatim>\<open>None\<close>, whatever the default was.
\<close>

lemma describe_always_resets_default:
  "\<exists>opts cur. override_store p (override_defaults\<lparr>kw_description := PyStr d\<rparr>) attr
        = (None, Some opts)
     \<and> map_of opts p = Some cur \<and> opt_default cur = PyNone \<and> opt_description cur = PyStr d"
proof -
  let ?kw = "override_defaults\<lparr>kw_description := PyStr d\<rparr>"
  let ?options = "case attr of None \<Rightarrow> [] | Some s \<Rightarrow> s"
  obtain current options1 where g: "getitem ?options p = (current, options1)"
    by (cases "getitem ?options p")
  obtain new where n: "option ?kw = Inr new" "opt_default new = PyNone"
    "opt_description new = PyStr d"
    by (simp add: option_def override_defaults_def)
  let ?cur = "copy_fields new (kwargs_items ?kw) current"
  have o: "override_store p ?kw attr = (None, Some (setitem options1 p ?cur))"
    using g n(1) by (simp add: override_store_def)
  have m: "map_of (setitem options1 p ?cur) p = Some ?cur"
    by (simp add: setitem_def update_conv')
  have dflt: "opt_default ?cur = PyNone"
    using override_copies_default [of ?kw new current] n(2)
    by (simp add: override_defaults_def)
  have "?cur = setattr (copy_fields new (butlast (kwargs_items ?kw)) current) F_default
      (getattr new F_default)"
    using copy_fields_snoc [of new "butlast (kwargs_items ?kw)" F_default "kw_default ?kw" current]
    by (simp add: kwargs_items_def override_defaults_def)
  then have descr: "opt_description ?cur = PyStr d"
    using n(3) by (simp add: kwargs_items_def override_defaults_def)
  from o m dflt descr show ?thesis by blast
qed

text \<open>
  Claim C2 says that an override changes only the fields supplied in the call, so that
  \<^verbatim>\<open>describe\<close> leaves a default set earlier as it was. The code does otherwise: the keyword
  \<^verbatim>\<open>default\<close> of \<^verbatim>\<open>override_option\<close> defaults to \<^verbatim>\<open>None\<close> and not to \<open>MISSING\<close>, so the loop
  never skips it. After \<^verbatim>\<open>override_option("a", default=5)\<close> the default of \<^verbatim>\<open>a\<close> is 5; after
  \<^verbatim>\<open>describe("a", "The first number")\<close> on top of it, the default is \<^verbatim>\<open>None\<close>.
\<close>

theorem describe_resets_default:
  "map_option opt_default (map_of (options_of
      (snd (override_option ''a'' (override_defaults\<lparr>kw_default := PyInt 5\<rparr>)
         (Function add_function)))) ''a'')
     = Some (PyInt 5)
   \<and> map_option opt_default (map_of (options_of
      (snd (describe ''a'' ''The first number''
        (snd (override_option ''a'' (override_defaults\<lparr>kw_default := PyInt 5\<rparr>)
           (Function add_function)))))) ''a'')
     = Some PyNone"
  by (simp add: options_of_def add_function_def store_eval)

section \<open>Properties of the injector\<close>

text \<open>
  One pass of the loop over a parameter that has no default and is not excluded: the
  descriptor is marked required, whatever it held, and neither the annotations nor the
  resolver play any part.
\<close>

lemma infer_required_ignores_resolver:
  "key \<notin> set ex \<Longrightarrow>
   infer_options R ex anns [(key, \<lparr>param_default = None\<rparr>)] opts =
     (None, setitem (snd (getitem opts key)) key
              ((fst (getitem opts key))\<lparr>opt_required := PyBool True\<rparr>))"
  by (simp add: split_def Let_def)

text \<open>
  Claim C3 says that inference fills only the fields that no explicit override has set.
  The code does otherwise: the loop assigns \<^verbatim>\<open>required\<close> and \<^verbatim>\<open>default\<close> without looking at
  what the descriptor holds. For \<^verbatim>\<open>greet\<close>, overridden so that \<^verbatim>\<open>a\<close> is not required and
  \<^verbatim>\<open>b\<close> has the default 7, the registered options have \<^verbatim>\<open>a\<close> required and \<^verbatim>\<open>b\<close> with the
  default 3 of the signature.
\<close>

theorem inference_overwrites_override:
  "map_of (options_of (Function overridden_greet)) ''a''
     = Some (placeholder\<lparr>opt_required := PyBool False\<rparr>)
   \<and> map_of (options_of (Function overridden_greet)) ''b''
     = Some (placeholder\<lparr>opt_default := PyInt 7\<rparr>)
   \<and> map (\<lambda>(app, g). ac_options app) (application_commands (snd (snd
        (injector_inject resolve_option_annotation ident inject_defaults
           (Command (greet_command_of overridden_greet)) new_bot))))
     = [[(''b'', placeholder\<lparr>opt_type := PyOptionType integer_t, opt_required := PyBool False,
                              opt_default := PyInt 3\<rparr>),
         (''a'', placeholder\<lparr>opt_required := PyBool True\<rparr>)]]"
  by (simp add: options_of_def overridden_greet_def greet_function_def greet_command_of_def
      store_eval injector_inject_def inject_command_def resolve_description_def
      resolve_parent_def inject_defaults_def new_bot_def resolve_option_annotation_def
      fill_type_def)

text \<open>
  Claim C9 says that the deferred registration through \<^verbatim>\<open>Injector.inject\<close> on a plain
  callback equals the direct one on the command, the excluded options included. The
  code does otherwise: the partial it attaches leaves \<^verbatim>\<open>excluded_options\<close> out. With \<^verbatim>\<open>b\<close>
  excluded, the direct registration has the one option \<^verbatim>\<open>a\<close>, the deferred one has \<^verbatim>\<open>a\<close>
  and \<^verbatim>\<open>b\<close>; the module-level \<^verbatim>\<open>inject\<close>, which stores all keywords, agrees with the direct
  registration.
\<close>

theorem deferred_inject_drops_excluded_options:
  "map (\<lambda>(app, g). (map fst (ac_options app), ac_callback_params app))
      (application_commands (snd (snd
         (injector_inject resolve_option_annotation ident exclude_b
            (Command (greet_command_of greet_function)) new_bot))))
     = [([''a''], [''a''])]
   \<and> map (\<lambda>(app, g). (map fst (ac_options app), ac_callback_params app))
      (application_commands (snd (snd
         (add_command resolve_option_annotation ident
            (greet_command_of (callback_of (fst (snd
               (injector_inject resolve_option_annotation ident exclude_b
                  (Function greet_function) new_bot)))))
            new_bot))))
     = [([''a'', ''b''], [''a'', ''b''])]
   \<and> map (\<lambda>(app, g). (map fst (ac_options app), ac_callback_params app))
      (application_commands (snd (snd
         (add_command resolve_option_annotation ident
            (greet_command_of (callback_of (fst (snd
               (inject resolve_option_annotation ident exclude_b
                  (Function greet_function) new_bot)))))
            new_bot))))
     = [([''a''], [''a''])]"
  by (simp add: exclude_b_def greet_function_def greet_command_of_def plain_function_def
      injector_inject_def inject_def add_command_def call_partial_def
      inject_command_def resolve_description_def resolve_parent_def
      inject_defaults_def new_bot_def resolve_option_annotation_def fill_type_def
      getitem_def setitem_def placeholder_def Let_def)

subsection \<open>The description of the registered command\<close>

text \<open>The loop returns normally when the resolver raises nothing but \<^verbatim>\<open>TypeError\<close>.\<close>

lemma infer_options_returns:
  "(\<And>d a. fst (R d a) = None \<or> fst (R d a) = Some TypeError) \<Longrightarrow>
   fst (infer_options R ex anns ps opts) = None"
proof (induction ps arbitrary: opts)
  case Nil
  then show ?case by simp
next
  case (Cons kp ps)
  obtain key p where kp: "kp = (key, p)" by (cases kp)
  note IH = Cons.IH [OF Cons.prems]
  show ?case
  proof (cases "key \<in> set ex")
    case True
    with kp IH show ?thesis by simp
  next
    case False
    obtain current options1 where g: "getitem opts key = (current, options1)"
      by (cases "getitem opts key")
    show ?thesis
    proof (cases "param_default p")
      case None
      with kp False g IH show ?thesis by simp
    next
      case (Some dv)
      let ?c1 = "current\<lparr>opt_required := PyBool False, opt_default := dv\<rparr>"
      show ?thesis
      proof (cases "map_of anns key")
        case None
        with kp False g Some IH show ?thesis by simp
      next
        case (Some ann) note ann = this
        show ?thesis
        proof (cases "truthy ann")
          case False
          with kp \<open>key \<notin> set ex\<close> g \<open>param_default p = Some dv\<close> ann IH show ?thesis by simp
        next
          case True
          obtain e c2 where r: "R ?c1 ann = (e, c2)" by (cases "R ?c1 ann")
          from Cons.prems [of ?c1 ann] r have "e = None \<or> e = Some TypeError" by simp
          with kp \<open>key \<notin> set ex\<close> g \<open>param_default p = Some dv\<close> ann True r IH
          show ?thesis by auto
        qed
      qed
    qed
  qed
qed

lemma inject_command_raises_keeps_registry:
  "fst (inject_command R ident kw c b) = Some e \<Longrightarrow>
   application_commands (snd (snd (inject_command R ident kw c b))) = application_commands b"
  by (auto simp: inject_command_def Let_def split: option.splits if_splits prod.splits)

lemma inject_command_returns_description:
  "fst (inject_command R ident kw c b) = None \<Longrightarrow>
   \<exists>app. application_commands (snd (snd (inject_command R ident kw c b)))
            = application_commands b @ [(app, ik_guild_id kw)]
       \<and> ac_description app
            = (case ik_description kw of Some d \<Rightarrow> d | None \<Rightarrow> take 100 (short_doc c))
       \<and> ac_description app \<noteq> []"
  by (auto simp: inject_command_def resolve_description_def Let_def
      split: option.splits if_splits prod.splits)

lemma inject_command_no_description:
  "ik_description kw = None \<Longrightarrow> short_doc c = [] \<Longrightarrow>
   inject_command R ident kw c b = (Some (no_description (callback c)), c, b)"
  by (simp add: inject_command_def resolve_description_def Let_def)

lemma inject_command_returns:
  assumes R: "\<And>d a. fst (R d a) = None \<or> fst (R d a) = Some TypeError"
    and d: "case ik_description kw of Some d \<Rightarrow> d \<noteq> [] | None \<Rightarrow> short_doc c \<noteq> []"
  shows "fst (inject_command R ident kw c b) = None"
proof -
  obtain desc where desc: "resolve_description kw c = Some desc" "desc \<noteq> []"
    using d by (auto simp: resolve_description_def split: option.splits)
  let ?opts = "case compat_options (callback c) of None \<Rightarrow> [] | Some s \<Rightarrow> s"
  obtain err o1 where io: "infer_options R (ik_excluded_options kw) (fn_annotations (callback c))
      (clean_params c) ?opts = (err, o1)"
    by (cases "infer_options R (ik_excluded_options kw) (fn_annotations (callback c))
      (clean_params c) ?opts")
  from infer_options_returns [of R, OF R] io have "err = None"
    by (metis fst_conv)
  with desc io show ?thesis by (simp add: inject_command_def Let_def)
qed

lemma resolve_option_annotation_raises:
  "fst (resolve_option_annotation d a) = None
   \<or> fst (resolve_option_annotation d a) = Some TypeError"
  by (simp add: resolve_option_annotation_def fill_type_def)

text \<open>
  Claim C8. Registration of a command, for every resolver, identity, keyword set, command
  and bot: with no explicit description and an empty short doc it raises the
  \<^verbatim>\<open>ValueError\<close> at once and leaves the command and the bot as they were; whenever it
  raises, no application command has been registered; whenever it returns, exactly one
  application command has been registered, whose description is the explicit description
  when one is given and the first 100 characters of the short doc otherwise, and is not
  empty; and it does return when the description is explicit and not empty, or absent
  with a short doc that is not empty, and the resolver raises nothing but \<^verbatim>\<open>TypeError\<close>.
  (An explicit description that is the empty string raises too.)
\<close>

theorem inject_description:
  "(ik_description kw = None \<and> short_doc c = [] \<longrightarrow>
      inject_command R ident kw c b = (Some (no_description (callback c)), c, b))
   \<and> (\<forall>e. fst (inject_command R ident kw c b) = Some e \<longrightarrow>
        application_commands (snd (snd (inject_command R ident kw c b))) = application_commands b)
   \<and> (fst (inject_command R ident kw c b) = None \<longrightarrow>
        (\<exists>app. application_commands (snd (snd (inject_command R ident kw c b)))
                 = application_commands b @ [(app, ik_guild_id kw)]
            \<and> ac_description app
                 = (case ik_description kw of Some d \<Rightarrow> d | None \<Rightarrow> take 100 (short_doc c))
            \<and> ac_description app \<noteq> []))
   \<and> ((\<forall>d a. fst (R d a) = None \<or> fst (R d a) = Some TypeError)
        \<and> (case ik_description kw of Some d \<Rightarrow> d \<noteq> [] | None \<Rightarrow> short_doc c \<noteq> []) \<longrightarrow>
        fst (inject_command R ident kw c b) = None)"
proof (intro conjI impI allI)
  assume "ik_description kw = None \<and> short_doc c = []"
  then show "inject_command R ident kw c b = (Some (no_description (callback c)), c, b)"
    by (simp add: inject_command_no_description)
next
  fix e
  assume "fst (inject_command R ident kw c b) = Some e"
  then show "application_commands (snd (snd (inject_command R ident kw c b)))
      = application_commands b"
    by (rule inject_command_raises_keeps_registry)
next
  assume "fst (inject_command R ident kw c b) = None"
  then show "\<exists>app. application_commands (snd (snd (inject_command R ident kw c b)))
                 = application_commands b @ [(app, ik_guild_id kw)]
            \<and> ac_description app
                 = (case ik_description kw of Some d \<Rightarrow> d | None \<Rightarrow> take 100 (short_doc c))
            \<and> ac_description app \<noteq> []"
    by (rule inject_command_returns_description)
next
  assume a: "(\<forall>d a. fst (R d a) = None \<or> fst (R d a) = Some TypeError)
        \<and> (case ik_description kw of Some d \<Rightarrow> d \<noteq> [] | None \<Rightarrow> short_doc c \<noteq> [])"
  then have "\<And>d a. fst (R d a) = None \<or> fst (R d a) = Some TypeError" by blast
  moreover from a
  have "case ik_description kw of Some d \<Rightarrow> d \<noteq> [] | None \<Rightarrow> short_doc c \<noteq> []"
    by blast
  ultimately show "fst (inject_command R ident kw c b) = None"
    by (rule inject_command_returns)
qed

text \<open>
  The theorem at three inputs: the undocumented command raises the error and nothing
  changes; a command whose short doc has 120 characters is registered with the first 100
  of them; with the explicit description \<^verbatim>\<open>Sum\<close> it is registered with that description.
\<close>

theorem inject_description_witness:
  "inject_command resolve_option_annotation ''0f'' inject_defaults undocumented_command new_bot
     = (Some (ValueError
          ''tried to convert 'add' into an application command, but it has no description''),
        undocumented_command, new_bot)
   \<and> (\<exists>app. application_commands (snd (snd
          (inject_command resolve_option_annotation ''0f'' inject_defaults long_doc_command
             new_bot)))
            = [(app, None)]
        \<and> ac_description app = replicate 100 (CHR ''x''))
   \<and> (\<exists>app. application_commands (snd (snd
          (inject_command resolve_option_annotation ''0f''
             (inject_defaults\<lparr>ik_description := Some ''Sum'', ik_guild_id := Some 123456789\<rparr>)
             long_doc_command new_bot)))
            = [(app, Some 123456789)]
        \<and> ac_description app = ''Sum'')"
proof -
  let ?R = resolve_option_annotation
  let ?kw = "inject_defaults\<lparr>ik_description := Some ''Sum'', ik_guild_id := Some 123456789\<rparr>"
  have R: "\<forall>d a. fst (?R d a) = None \<or> fst (?R d a) = Some TypeError"
    using resolve_option_annotation_raises by blast
  have u: "ik_description inject_defaults = None \<and> short_doc undocumented_command = []"
    by (simp add: inject_defaults_def undocumented_command_def)
  have l: "case ik_description inject_defaults of Some d \<Rightarrow> d \<noteq> []
             | None \<Rightarrow> short_doc long_doc_command \<noteq> []"
    by (simp add: inject_defaults_def long_doc_command_def)
  have x: "case ik_description ?kw of Some d \<Rightarrow> d \<noteq> []
             | None \<Rightarrow> short_doc long_doc_command \<noteq> []"
    by simp
  from inject_description [of inject_defaults undocumented_command ?R "''0f''" new_bot] u
  have a: "inject_command ?R ''0f'' inject_defaults undocumented_command new_bot
     = (Some (no_description (callback undocumented_command)), undocumented_command, new_bot)"
    by blast
  have a2: "no_description (callback undocumented_command)
     = ValueError ''tried to convert 'add' into an application command, but it has no description''"
    by (simp add: no_description_def undocumented_command_def add_command_of_def
        add_function_def plain_function_def str_eval)
  note t1 = inject_description [of inject_defaults long_doc_command ?R "''0f''" new_bot]
  from t1 R l
  have r1: "fst (inject_command ?R ''0f'' inject_defaults long_doc_command new_bot) = None"
    by blast
  with t1 obtain app1 where
    b1: "application_commands (snd (snd
           (inject_command ?R ''0f'' inject_defaults long_doc_command new_bot)))
           = application_commands new_bot @ [(app1, ik_guild_id inject_defaults)]"
    and b2: "ac_description app1
           = (case ik_description inject_defaults of Some d \<Rightarrow> d
              | None \<Rightarrow> take 100 (short_doc long_doc_command))"
    by blast
  from b1 have b1': "application_commands (snd (snd
           (inject_command ?R ''0f'' inject_defaults long_doc_command new_bot)))
           = [(app1, None)]"
    by (simp add: new_bot_def inject_defaults_def)
  from b2 have b2': "ac_description app1 = replicate 100 (CHR ''x'')"
    by (simp add: inject_defaults_def long_doc_command_def)
  note t2 = inject_description [of ?kw long_doc_command ?R "''0f''" new_bot]
  from t2 R x have r2: "fst (inject_command ?R ''0f'' ?kw long_doc_command new_bot) = None"
    by blast
  with t2 obtain app2 where
    c1: "application_commands (snd (snd (inject_command ?R ''0f'' ?kw long_doc_command new_bot)))
           = application_commands new_bot @ [(app2, ik_guild_id ?kw)]"
    and c2: "ac_description app2
           = (case ik_description ?kw of Some d \<Rightarrow> d
              | None \<Rightarrow> take 100 (short_doc long_doc_command))"
    by blast
  from c1 have c1': "application_commands (snd (snd
           (inject_command ?R ''0f'' ?kw long_doc_command new_bot)))
           = [(app2, Some 123456789)]"
    by (simp add: new_bot_def)
  from c2 have c2': "ac_description app2 = ''Sum''" by simp
  from a a2 b1' b2' c1' c2' show ?thesis by (simp only:) blast
qed

subsection \<open>Which annotations the injector resolves\<close>











section \<open>Properties of the context adapter\<close>

lemma is_interaction_example: "is_interaction interaction_context"
  by (simp add: interaction_context_def new_context_def is_interaction_def)

lemma not_interaction_example: "\<not> is_interaction legacy_context"
  by (simp add: legacy_context_def new_context_def is_interaction_def)

lemmas host_defs =
  request_def initial_response_def response_send_message_def response_edit_message_def
  response_defer_def followup_send_def edit_original_message_def

lemma send_not_responded:
  "is_interaction ctx \<Longrightarrow> \<not> responded w \<Longrightarrow> platform w (length (calls w)) \<Longrightarrow>
   send ctx content kw w =
     (Returned None,
      w\<lparr>calls := calls w @ [ResponseSendMessage content
            (pop_keys [''reference'', ''mention_after'', ''delete_after'', ''nonce''] kw)],
        responded := True\<rparr>)"
  by (simp add: send_def host_defs Let_def)

lemma send_responded:
  "is_interaction ctx \<Longrightarrow> responded w \<Longrightarrow>
   calls (snd (send ctx content kw w)) =
     calls w @ [FollowupSend content
            (pop_keys [''reference'', ''mention_after'', ''delete_after'', ''nonce''] kw)]
   \<and> responded (snd (send ctx content kw w))"
  by (simp add: send_def host_defs Let_def)

text \<open>Once the phase is RESPONDED, every send of a sequence is a followup.\<close>

lemma send_each_responded:
  "is_interaction ctx \<Longrightarrow> responded w \<Longrightarrow>
   calls (send_each ctx rest w) =
     calls w @ map (\<lambda>(c, k). FollowupSend c
            (pop_keys [''reference'', ''mention_after'', ''delete_after'', ''nonce''] k)) rest
   \<and> responded (send_each ctx rest w)"
proof (induction rest arbitrary: w)
  case Nil
  then show ?case by simp
next
  case (Cons m rest)
  obtain c k where m: "m = (c, k)" by (cases m)
  from send_responded [OF Cons.prems, of c k]
  have step: "calls (snd (send ctx c k w)) =
       calls w @ [FollowupSend c
         (pop_keys [''reference'', ''mention_after'', ''delete_after'', ''nonce''] k)]"
    and still: "responded (snd (send ctx c k w))" by simp_all
  from Cons.IH [OF Cons.prems(1) still] step m show ?case by simp
qed

text \<open>
  Claim C4. On a context built from an interaction: when nothing has been responded yet
  and the platform accepts the request, \<^verbatim>\<open>send\<close> makes the initial response, returns, and
  the phase is RESPONDED; when the phase is RESPONDED, \<^verbatim>\<open>send\<close> makes a followup request and
  the phase stays RESPONDED; hence in a sequence of sends that starts with nothing
  responded, the first is the initial response and every later one is a followup, none
  of them an initial response.
\<close>

theorem send_phase_law:
  "is_interaction ctx \<Longrightarrow>
   (\<not> responded w \<and> platform w (length (calls w)) \<longrightarrow>
      send ctx content kw w =
        (Returned None,
         w\<lparr>calls := calls w @ [ResponseSendMessage content
               (pop_keys [''reference'', ''mention_after'', ''delete_after'', ''nonce''] kw)],
           responded := True\<rparr>))
   \<and> (responded w \<longrightarrow>
        calls (snd (send ctx content kw w)) =
          calls w @ [FollowupSend content
               (pop_keys [''reference'', ''mention_after'', ''delete_after'', ''nonce''] kw)]
        \<and> responded (snd (send ctx content kw w)))
   \<and> (\<not> responded w \<and> platform w (length (calls w)) \<longrightarrow>
        calls (send_each ctx ((content, kw) # rest) w) =
          calls w @ ResponseSendMessage content
               (pop_keys [''reference'', ''mention_after'', ''delete_after'', ''nonce''] kw)
            # map (\<lambda>(c, k). FollowupSend c
               (pop_keys [''reference'', ''mention_after'', ''delete_after'', ''nonce''] k)) rest
        \<and> responded (send_each ctx ((content, kw) # rest) w))"
proof -
  assume i: "is_interaction ctx"
  have third: "calls (send_each ctx ((content, kw) # rest) w) =
          calls w @ ResponseSendMessage content
               (pop_keys [''reference'', ''mention_after'', ''delete_after'', ''nonce''] kw)
            # map (\<lambda>(c, k). FollowupSend c
               (pop_keys [''reference'', ''mention_after'', ''delete_after'', ''nonce''] k)) rest
        \<and> responded (send_each ctx ((content, kw) # rest) w)"
    if n: "\<not> responded w" and p: "platform w (length (calls w))"
  proof -
    let ?w1 = "snd (send ctx content kw w)"
    from send_not_responded [OF i n p, of content kw]
    have r1: "responded ?w1"
      and c1: "calls ?w1 = calls w @ [ResponseSendMessage content
               (pop_keys [''reference'', ''mention_after'', ''delete_after'', ''nonce''] kw)]"
      by simp_all
    from send_each_responded [OF i r1, of rest] c1 show ?thesis by simp
  qed
  from send_not_responded [OF i, of w content kw] send_responded [OF i, of w content kw] third
  show ?thesis by blast
qed

text \<open>
  The theorem on the example context: the first send is the initial response (the nonce
  is dropped from its options), two more sends are followups, and a send in a world that
  has been responded to is a followup.
\<close>

theorem send_phase_law_witness:
  "send interaction_context (PyStr ''2 + 3 = 5'')
      [(''nonce'', PyInt 7), (''ephemeral'', PyBool True)] fresh_world
     = (Returned None,
        \<lparr>responded = True,
         calls = [ResponseSendMessage (PyStr ''2 + 3 = 5'') [(''ephemeral'', PyBool True)]],
         platform = (\<lambda>n. True)\<rparr>)
   \<and> calls (send_each interaction_context
        [(PyStr ''2 + 3 = 5'', [(''nonce'', PyInt 7), (''ephemeral'', PyBool True)]),
         (PyStr ''again'', []), (PyStr ''third'', [(''reference'', PyNone)])] fresh_world)
     = [ResponseSendMessage (PyStr ''2 + 3 = 5'') [(''ephemeral'', PyBool True)],
        FollowupSend (PyStr ''again'') [], FollowupSend (PyStr ''third'') []]
   \<and> calls (snd (send interaction_context (PyStr ''more'') [] responded_world))
     = [ResponseSendMessage (PyStr ''hi'') [], FollowupSend (PyStr ''more'') []]"
proof -
  let ?kw = "[(''nonce'', PyInt 7), (''ephemeral'', PyBool True)]"
  let ?rest = "[(PyStr ''again'', []), (PyStr ''third'', [(''reference'', PyNone)])]"
  let ?strip = "pop_keys [''reference'', ''mention_after'', ''delete_after'', ''nonce'']"
  have n: "\<not> responded fresh_world" and p: "platform fresh_world (length (calls fresh_world))"
    by (simp_all add: fresh_world_def)
  have r: "responded responded_world" by (simp add: responded_world_def)
  note law = send_phase_law [OF is_interaction_example]
  from law [of fresh_world "PyStr ''2 + 3 = 5''" ?kw ?rest] n p
  have a1: "send interaction_context (PyStr ''2 + 3 = 5'') ?kw fresh_world
     = (Returned None,
        fresh_world\<lparr>calls := calls fresh_world
             @ [ResponseSendMessage (PyStr ''2 + 3 = 5'') (?strip ?kw)],
           responded := True\<rparr>)"
    and b1: "calls (send_each interaction_context ((PyStr ''2 + 3 = 5'', ?kw) # ?rest) fresh_world)
     = calls fresh_world @ ResponseSendMessage (PyStr ''2 + 3 = 5'') (?strip ?kw)
         # map (\<lambda>(c, k). FollowupSend c (?strip k)) ?rest"
    by blast+
  from law [of responded_world "PyStr ''more''" "[]" "[]"] r
  have c1: "calls (snd (send interaction_context (PyStr ''more'') [] responded_world))
     = calls responded_world @ [FollowupSend (PyStr ''more'') (?strip [])]"
    by blast
  have a2: "fresh_world\<lparr>calls := calls fresh_world
             @ [ResponseSendMessage (PyStr ''2 + 3 = 5'') (?strip ?kw)],
           responded := True\<rparr>
      = \<lparr>responded = True,
         calls = [ResponseSendMessage (PyStr ''2 + 3 = 5'') [(''ephemeral'', PyBool True)]],
         platform = (\<lambda>n. True)\<rparr>"
    by (simp add: fresh_world_def AList.delete_eq)
  have b2: "calls fresh_world @ ResponseSendMessage (PyStr ''2 + 3 = 5'') (?strip ?kw)
         # map (\<lambda>(c, k). FollowupSend c (?strip k)) ?rest
      = [ResponseSendMessage (PyStr ''2 + 3 = 5'') [(''ephemeral'', PyBool True)],
        FollowupSend (PyStr ''again'') [], FollowupSend (PyStr ''third'') []]"
    by (simp add: fresh_world_def AList.delete_eq)
  have c2: "calls responded_world @ [FollowupSend (PyStr ''more'') (?strip [])]
      = [ResponseSendMessage (PyStr ''hi'') [], FollowupSend (PyStr ''more'') []]"
    by (simp add: responded_world_def)
  from a1 a2 b1 b2 c1 c2 show ?thesis by (simp only:)
qed

lemma edit_calls:
  "calls (snd (edit kw w)) =
     calls w @ [if responded w then EditOriginalMessage kw else ResponseEditMessage kw]"
  by (simp add: edit_def host_defs Let_def)

text \<open>
  Claim C5. \<^verbatim>\<open>edit\<close> on a synthesized message makes exactly one request: the edit through
  the interaction response when nothing has been responded, the edit of the original
  response when the phase is RESPONDED. It never makes the regular message edit. After one
  accepted \<^verbatim>\<open>send\<close> on a context of the interaction, \<^verbatim>\<open>edit\<close> is the edit of the original
  response.
\<close>

theorem edit_phase_law:
  "calls (snd (edit kw w)) =
     calls w @ [if responded w then EditOriginalMessage kw else ResponseEditMessage kw]
   \<and> (\<forall>k. (MessageEdit k \<in> set (calls (snd (edit kw w)))) = (MessageEdit k \<in> set (calls w)))
   \<and> (is_interaction ctx \<and> \<not> responded w \<and> platform w (length (calls w)) \<longrightarrow>
        calls (snd (edit kw (snd (send ctx content skw w)))) =
          calls w @ [ResponseSendMessage content
                       (pop_keys [''reference'', ''mention_after'', ''delete_after'', ''nonce''] skw),
                     EditOriginalMessage kw])"
proof -
  have never: "(MessageEdit k \<in> set (calls (snd (edit kw w)))) = (MessageEdit k \<in> set (calls w))"
    for k
    by (simp add: edit_calls)
  have after: "calls (snd (edit kw (snd (send ctx content skw w)))) =
          calls w @ [ResponseSendMessage content
                       (pop_keys [''reference'', ''mention_after'', ''delete_after'', ''nonce''] skw),
                     EditOriginalMessage kw]"
    if "is_interaction ctx" "\<not> responded w" "platform w (length (calls w))"
    using send_not_responded [OF that, of content skw] by (simp add: edit_calls)
  from edit_calls [of kw w] never after show ?thesis by blast
qed

text \<open>
  The theorem on the examples: an edit before anything is sent, and an edit after one
  send.
\<close>

theorem edit_phase_law_witness:
  "calls (snd (edit [(''content'', PyStr ''new'')] fresh_world))
     = [ResponseEditMessage [(''content'', PyStr ''new'')]]
   \<and> calls (snd (edit [(''content'', PyStr ''new'')]
        (snd (send interaction_context (PyStr ''2 + 3 = 5'') [] fresh_world))))
     = [ResponseSendMessage (PyStr ''2 + 3 = 5'') [],
        EditOriginalMessage [(''content'', PyStr ''new'')]]"
proof -
  let ?kw = "[(''content'', PyStr ''new'')]"
  let ?strip = "pop_keys [''reference'', ''mention_after'', ''delete_after'', ''nonce'']"
  have n: "\<not> responded fresh_world" and p: "platform fresh_world (length (calls fresh_world))"
    by (simp_all add: fresh_world_def)
  note law = edit_phase_law [of ?kw fresh_world interaction_context "PyStr ''2 + 3 = 5''" "[]"]
  from law n
  have a1: "calls (snd (edit ?kw fresh_world)) = calls fresh_world @ [ResponseEditMessage ?kw]"
    by simp
  from law is_interaction_example n p
  have b1: "calls (snd (edit ?kw
        (snd (send interaction_context (PyStr ''2 + 3 = 5'') [] fresh_world))))
     = calls fresh_world
         @ [ResponseSendMessage (PyStr ''2 + 3 = 5'') (?strip []), EditOriginalMessage ?kw]"
    by blast
  have a2: "calls fresh_world @ [ResponseEditMessage ?kw] = [ResponseEditMessage ?kw]"
    by (simp add: fresh_world_def)
  have b2: "calls fresh_world
         @ [ResponseSendMessage (PyStr ''2 + 3 = 5'') (?strip []), EditOriginalMessage ?kw]
     = [ResponseSendMessage (PyStr ''2 + 3 = 5'') [], EditOriginalMessage ?kw]"
    by (simp add: fresh_world_def)
  from a1 a2 b1 b2 show ?thesis by (simp only:)
qed

text \<open>
  Claim C6 says that \<^verbatim>\<open>defer\<close> on a context of an interaction requests a deferred response
  and raises every failure of that request. The code does otherwise: it never awaits the
  coroutine of \<^verbatim>\<open>response.defer\<close>. In any world \<^verbatim>\<open>defer\<close> returns and leaves the world as it
  was. Where the interaction has been responded to, the awaited host operation raises
  \<^verbatim>\<open>InteractionResponded\<close> and \<^verbatim>\<open>defer\<close> returns normally; where nothing has been sent, the
  awaited host operation makes the request and \<^verbatim>\<open>defer\<close> makes none.
\<close>

theorem defer_never_requests:
  "defer_ctx legacy_context loading ephemeral w = (Returned (), w)
   \<and> defer_ctx interaction_context loading ephemeral w = (Returned (), w)
   \<and> defer_ctx interaction_context False False responded_world = (Returned (), responded_world)
   \<and> response_defer False False responded_world = (Raised InteractionResponded, responded_world)
   \<and> calls (snd (defer_ctx interaction_context True True fresh_world)) = []
   \<and> response_defer True True fresh_world
       = (Returned (),
          \<lparr>responded = True, calls = [ResponseDefer True True], platform = (\<lambda>n. True)\<rparr>)"
  by (simp add: defer_ctx_def is_interaction_example host_defs responded_world_def
      fresh_world_def Let_def)

lemma reply_Some_interaction:
  assumes "reply ctx content kw w = Some y"
  shows "is_interaction ctx"
proof (rule reply.raw_induct [where P = "\<lambda>c _ _ _ _. is_interaction c", OF _ assms])
  fix r :: "interaction_aware_context \<Rightarrow> pyval \<Rightarrow> kwargs \<Rightarrow> world
      \<Rightarrow> (message option result \<times> world) option"
  fix c co k v z
  assume ih: "\<And>c co k v z. r c co k v = Some z \<Longrightarrow> is_interaction c"
    and step: "(if is_interaction c then Some (send c co k v) else r c co k v) = Some z"
  show "is_interaction c"
  proof (cases "is_interaction c")
    case True
    then show ?thesis .
  next
    case False
    with step have "r c co k v = Some z" by simp
    then show ?thesis by (rule ih)
  qed
qed

lemma reply_never_returns: "\<not> is_interaction ctx \<Longrightarrow> reply ctx content kw w = None"
  using reply_Some_interaction [of ctx content kw w] by (cases "reply ctx content kw w") auto

lemma reply_is_send:
  "is_interaction ctx \<Longrightarrow> reply ctx content kw w = Some (send ctx content kw w)"
  by (subst reply.simps) simp

text \<open>
  Claim C7 says that \<^verbatim>\<open>reply\<close> is \<^verbatim>\<open>send\<close> on a context of an interaction, is the legacy
  threaded reply otherwise, and terminates in both cases. The first part holds. On a
  context of a real message the code does otherwise: \<^verbatim>\<open>reply\<close> calls itself with the same
  arguments, so the call never returns and no reply is sent (the interpreter ends the
  recursion with a \<^verbatim>\<open>RecursionError\<close>).
\<close>

theorem reply_legacy_never_returns:
  "reply legacy_context content kw w = None
   \<and> reply interaction_context content kw w = Some (send interaction_context content kw w)"
  by (simp add: reply_never_returns [OF not_interaction_example]
      reply_is_send [OF is_interaction_example])

end
